theory Spec2Isabelle
  imports Main
begin

section \<open>The notebook 03-Features-Modeling.ipynb as data\<close>

text \<open>
  The repository is one Jupyter notebook. Its JSON is a list of cells; a cell is either
  markdown prose or Python code. The code cells use a very small fragment of Python:
  names, integer and string literals, attribute access, calls with keyword arguments,
  \<^verbatim>\<open>from m import n [as a]\<close>, assignment to a name, and expression statements.
  The abstract syntax below follows Python's \<^verbatim>\<open>ast\<close> module for that fragment
  (\<^verbatim>\<open>ast.Call\<close> has \<^verbatim>\<open>func\<close>, \<^verbatim>\<open>args\<close>, \<^verbatim>\<open>keywords\<close>).
\<close>

datatype expr =
    Name string
  | Num int
  | Str string
  | Attribute expr string
  | Call expr "expr list" "(string \<times> expr) list"

datatype stmt =
    ImportFrom string string "string option"
  | Assign string expr
  | Expr expr

text \<open>A source line of a code cell is blank, a comment, or carries one statement.\<close>

datatype line = Blank | Comment string | Code stmt

text \<open>
  A stored output of a code cell. The only one in the file is an \<^verbatim>\<open>execute_result\<close>;
  its \<^verbatim>\<open>text/plain\<close> rendering
  \<^verbatim>\<open><Client: 'tcp://127.0.0.1:52321' processes=2 threads=2, memory=2.00 GB>\<close>
  is kept by its fields: execution count, scheduler address, processes, threads, memory.
\<close>

datatype cell_output = ExecuteResult nat string nat nat string

text \<open>
  A markdown cell is kept by its first source line and its number of source lines (its
  prose is never executed); a code cell by its \<^verbatim>\<open>execution_count\<close>, its stored
  outputs and its source lines.
\<close>

datatype cell =
    Markdown string nat
  | CodeCell "nat option" "cell_output list" "line list"

definition cell4 :: cell where
  "cell4 = CodeCell (Some 2) []
     [ Code (ImportFrom ''dask'' ''dataframe'' (Some ''ddf'')),
       Code (ImportFrom ''dask'' ''array'' (Some ''da'')),
       Code (ImportFrom ''dask.distributed'' ''Client'' None),
       Blank,
       Code (Assign ''client''
              (Call (Name ''Client'') []
                 [(''n_workers'', Num 2), (''threads_per_worker'', Num 1),
                  (''memory_limit'', Str ''1GB'')])) ]"

definition cell5 :: cell where
  "cell5 = CodeCell (Some 3)
     [ ExecuteResult 3 ''tcp://127.0.0.1:52321'' 2 2 ''2.00 GB'' ]
     [ Code (Expr (Name ''client'')) ]"

definition cell6 :: cell where
  "cell6 = CodeCell (Some 4) [] [ Comment ''# FIXME examples'' ]"

definition cell7 :: cell where
  "cell7 = CodeCell (Some 5) []
     [ Code (Expr (Call (Attribute (Name ''client'') ''close'') [] [])) ]"

definition cell9 :: cell where
  "cell9 = CodeCell None [] []"

definition notebook :: "cell list" where
  "notebook =
     [ Markdown ''# Feature Engineering'' 30,
       Markdown ''FIXME: image'' 1,
       Markdown ''## Rise of Python'' 36,
       Markdown ''As an added bonus, due to the Dask architecture, it can leverage GPU-enabled versions of the underlying libraries.'' 11,
       cell4, cell5, cell6, cell7,
       Markdown ''# Modeling'' 2,
       cell9 ]"


section \<open>Static reading of the code cells\<close>

fun line_stmts :: "line \<Rightarrow> stmt list" where
  "line_stmts (Code s) = [s]"
| "line_stmts Blank = []"
| "line_stmts (Comment c) = []"

fun cell_stmts :: "cell \<Rightarrow> stmt list" where
  "cell_stmts (Markdown t n) = []"
| "cell_stmts (CodeCell ec outs ls) = concat (map line_stmts ls)"

definition statements :: "cell list \<Rightarrow> stmt list" where
  "statements cs = concat (map cell_stmts cs)"

fun is_code :: "cell \<Rightarrow> bool" where
  "is_code (CodeCell ec outs ls) = True"
| "is_code (Markdown t n) = False"

definition code_cells :: "cell list \<Rightarrow> cell list" where
  "code_cells cs = filter is_code cs"

text \<open>What the file stores of the run that produced it: the execution count of each code
  cell, and the execution counts of the stored results.\<close>

fun stored_count :: "cell \<Rightarrow> nat option list" where
  "stored_count (CodeCell ec outs ls) = [ec]"
| "stored_count (Markdown t n) = []"

fun result_count :: "cell_output \<Rightarrow> nat" where
  "result_count (ExecuteResult k addr procs threads mem) = k"

fun stored_results :: "cell \<Rightarrow> nat list" where
  "stored_results (CodeCell ec outs ls) = map result_count outs"
| "stored_results (Markdown t n) = []"

text \<open>All call expressions inside an expression, outermost first, in evaluation order
  of their sub-expressions.\<close>

fun calls_in :: "expr \<Rightarrow> expr list"
  and calls_in_list :: "expr list \<Rightarrow> expr list"
  and calls_in_kws :: "(string \<times> expr) list \<Rightarrow> expr list" where
  "calls_in (Name n) = []"
| "calls_in (Num i) = []"
| "calls_in (Str s) = []"
| "calls_in (Attribute e a) = calls_in e"
| "calls_in (Call f as kws) =
     Call f as kws # (calls_in f @ calls_in_list as @ calls_in_kws kws)"
| "calls_in_list [] = []"
| "calls_in_list (e # es) = calls_in e @ calls_in_list es"
| "calls_in_kws [] = []"
| "calls_in_kws ((k, e) # kws) = calls_in e @ calls_in_kws kws"

fun stmt_calls :: "stmt \<Rightarrow> expr list" where
  "stmt_calls (ImportFrom m n a) = []"
| "stmt_calls (Assign x e) = calls_in e"
| "stmt_calls (Expr e) = calls_in e"

definition calls :: "cell list \<Rightarrow> expr list" where
  "calls cs = concat (map stmt_calls (statements cs))"

text \<open>A construction of the compute client is a call whose function is the name
  \<^verbatim>\<open>Client\<close>.\<close>

fun is_client_construction :: "expr \<Rightarrow> bool" where
  "is_client_construction (Call (Name n) as kws) = (n = ''Client'')"
| "is_client_construction e = False"

definition client_constructions :: "cell list \<Rightarrow> expr list" where
  "client_constructions cs = filter is_client_construction (calls cs)"


text \<open>The number of source lines of a cell that carry a statement.\<close>

fun impl_lines :: "cell \<Rightarrow> nat" where
  "impl_lines (Markdown t n) = 0"
| "impl_lines (CodeCell ec outs ls) = length (concat (map line_stmts ls))"

definition implementation_lines :: "cell list \<Rightarrow> nat" where
  "implementation_lines cs = sum_list (map impl_lines cs)"

text \<open>Set-up and tear-down statements: the assignment whose value is a construction of
  the client, and the expression statement calling \<^verbatim>\<open>close\<close> on a name.\<close>

fun is_close_call :: "expr \<Rightarrow> bool" where
  "is_close_call (Call (Attribute (Name x) a) as kws) = (a = ''close'')"
| "is_close_call e = False"

fun is_setup_or_teardown :: "stmt \<Rightarrow> bool" where
  "is_setup_or_teardown (Assign x e) = is_client_construction e"
| "is_setup_or_teardown (Expr e) = is_close_call e"
| "is_setup_or_teardown (ImportFrom m n a) = False"

text \<open>Names read by an expression, in evaluation order; names bound by a statement.\<close>

fun reads :: "expr \<Rightarrow> string list"
  and reads_list :: "expr list \<Rightarrow> string list"
  and reads_kws :: "(string \<times> expr) list \<Rightarrow> string list" where
  "reads (Name n) = [n]"
| "reads (Num i) = []"
| "reads (Str s) = []"
| "reads (Attribute e a) = reads e"
| "reads (Call f as kws) = reads f @ reads_list as @ reads_kws kws"
| "reads_list [] = []"
| "reads_list (e # es) = reads e @ reads_list es"
| "reads_kws [] = []"
| "reads_kws ((k, e) # kws) = reads e @ reads_kws kws"

fun stmt_reads :: "stmt \<Rightarrow> string list" where
  "stmt_reads (ImportFrom m n a) = []"
| "stmt_reads (Assign x e) = reads e"
| "stmt_reads (Expr e) = reads e"

fun bound_name :: "string \<Rightarrow> string option \<Rightarrow> string" where
  "bound_name n None = n"
| "bound_name n (Some a) = a"

fun stmt_binds :: "stmt \<Rightarrow> string list" where
  "stmt_binds (ImportFrom m n a) = [bound_name n a]"
| "stmt_binds (Assign x e) = [x]"
| "stmt_binds (Expr e) = []"


text \<open>The names a statement sequence reads before having bound them itself: what it
  would take from the surrounding namespace (builtins, earlier sessions).\<close>

fun free_names :: "string list \<Rightarrow> stmt list \<Rightarrow> string list" where
  "free_names bound [] = []"
| "free_names bound (st # sts) =
     filter (\<lambda>n. n \<notin> set bound) (stmt_reads st) @ free_names (stmt_binds st @ bound) sts"

fun is_literal :: "expr \<Rightarrow> bool" where
  "is_literal (Num i) = True"
| "is_literal (Str s) = True"
| "is_literal e = False"

fun call_arguments :: "expr \<Rightarrow> expr list" where
  "call_arguments (Call f as kws) = as @ map snd kws"
| "call_arguments e = []"

text \<open>The cell that constructs the client, the cell that closes it, and the cells
  strictly between the two.\<close>

definition constructs_client :: "cell \<Rightarrow> bool" where
  "constructs_client c = list_ex is_client_construction (concat (map stmt_calls (cell_stmts c)))"

definition closes_client :: "cell \<Rightarrow> bool" where
  "closes_client c = list_ex is_close_call (concat (map stmt_calls (cell_stmts c)))"

definition intervening :: "cell list \<Rightarrow> cell list" where
  "intervening cs =
     takeWhile (\<lambda>c. \<not> closes_client c) (tl (dropWhile (\<lambda>c. \<not> constructs_client c) cs))"

text \<open>The statements that follow the first statement containing a call of
  \<^verbatim>\<open>close\<close>, whatever cell they are in.\<close>

definition stmts_after_close :: "stmt list \<Rightarrow> stmt list" where
  "stmts_after_close ss = tl (dropWhile (\<lambda>st. \<not> list_ex is_close_call (stmt_calls st)) ss)"


section \<open>Running the notebook\<close>

text \<open>
  Running the notebook executes its code cells from top to bottom in one namespace; the
  stored execution counts 2, 3, 4, 5 record that order. Two things the run depends on
  are not in the repository.

  The libraries (\<^verbatim>\<open>dask\<close>, \<^verbatim>\<open>dask.distributed\<close>): whether an import succeeds,
  and whether a call raises, returns \<^verbatim>\<open>None\<close> or returns an object, is decided by
  the environment. It is a parameter of the run, the \<open>world\<close>; the outcome of a call
  depends on what is called and with which arguments. An imported object is known by its
  module and name, an attribute of a value by the value and the attribute name, and an
  object returned by a call is fresh. The text of a cell, a string, is kept as the lines
  it holds (\<open>VSource\<close>).

  The kernel: the notebook's metadata names IPython. Before it runs a cell with count
  \<open>N\<close> it binds \<^verbatim>\<open>_i\<close>, \<^verbatim>\<open>_ii\<close>, \<^verbatim>\<open>_iii\<close> to the three previous inputs and
  \<^verbatim>\<open>_iN\<close> to the cell's source; when the last statement of the cell is an
  expression whose value is not \<^verbatim>\<open>None\<close>, the display hook shows the value and
  binds \<^verbatim>\<open>_\<close> and \<^verbatim>\<open>_N\<close> to it (moving the old \<^verbatim>\<open>_\<close> to \<^verbatim>\<open>__\<close> and
  the old \<^verbatim>\<open>__\<close> to \<^verbatim>\<open>___\<close>) and stores it as \<^verbatim>\<open>Out[N]\<close>. A cell without
  source is not run.

  What the run does to the outside is recorded as a trace of events: imports, calls
  into the library with their outcome, and displayed values. A run stops at the first
  error; the state reached is kept with the error.
\<close>

datatype val =
    VInt int
  | VStr string
  | VNone
  | VSource "line list"
  | VImported string string
  | VAttr val string
  | VObj nat

datatype event =
    EImport string string string
  | ECall val "val list" "(string \<times> val) list" "val option"
  | EDisplay val

datatype error =
    NameError string
  | NotCallable val
  | AttributeError string
  | ImportError string string
  | LibraryError val

datatype outcome = Raises | ReturnsNone | ReturnsObject

record world =
  importable :: "string \<Rightarrow> string \<Rightarrow> bool"
  call_outcome :: "val \<Rightarrow> val list \<Rightarrow> (string \<times> val) list \<Rightarrow> outcome"

record state =
  env :: "(string \<times> val) list"
  next_obj :: nat
  trace :: "event list"
  exec_count :: nat
  in_hist :: "(nat \<times> line list) list"
  out_hist :: "(nat \<times> val) list"

text \<open>A fresh kernel: nothing bound by the user, the first cell gets count 1.\<close>

definition init :: state where
  "init = \<lparr> env = [], next_obj = 0, trace = [], exec_count = 1, in_hist = [], out_hist = [] \<rparr>"

text \<open>The environment of the stored run: every import succeeds, a call returns an object,
  and \<^verbatim>\<open>close\<close> returns \<^verbatim>\<open>None\<close> (cell 7 has no stored output).\<close>

fun returns :: "val \<Rightarrow> val list \<Rightarrow> (string \<times> val) list \<Rightarrow> outcome" where
  "returns (VAttr v a) as kws = (if a = ''close'' then ReturnsNone else ReturnsObject)"
| "returns f as kws = ReturnsObject"

definition installed :: world where
  "installed = \<lparr> importable = (\<lambda>m n. True), call_outcome = returns \<rparr>"


fun callable :: "val \<Rightarrow> bool" where
  "callable (VInt i) = False"
| "callable (VStr s) = False"
| "callable VNone = False"
| "callable (VSource ls) = False"
| "callable (VImported m n) = True"
| "callable (VAttr v a) = True"
| "callable (VObj k) = True"

fun eval :: "world \<Rightarrow> expr \<Rightarrow> state \<Rightarrow> (error \<times> state) + (val \<times> state)"
  and eval_list :: "world \<Rightarrow> expr list \<Rightarrow> state \<Rightarrow> (error \<times> state) + (val list \<times> state)"
  and eval_kws :: "world \<Rightarrow> (string \<times> expr) list \<Rightarrow> state
                     \<Rightarrow> (error \<times> state) + ((string \<times> val) list \<times> state)"
where
  "eval w (Name n) s =
     (case map_of (env s) n of None \<Rightarrow> Inl (NameError n, s) | Some v \<Rightarrow> Inr (v, s))"
| "eval w (Num i) s = Inr (VInt i, s)"
| "eval w (Str t) s = Inr (VStr t, s)"
| "eval w (Attribute e a) s =
     (case eval w e s of Inl err \<Rightarrow> Inl err
      | Inr (v, s1) \<Rightarrow> if v = VNone then Inl (AttributeError a, s1) else Inr (VAttr v a, s1))"
| "eval w (Call f as kws) s =
     (case eval w f s of Inl err \<Rightarrow> Inl err | Inr (fv, s1) \<Rightarrow>
     (case eval_list w as s1 of Inl err \<Rightarrow> Inl err | Inr (avs, s2) \<Rightarrow>
     (case eval_kws w kws s2 of Inl err \<Rightarrow> Inl err | Inr (kvs, s3) \<Rightarrow>
        if \<not> callable fv then Inl (NotCallable fv, s3)
        else (case call_outcome w fv avs kvs of
                Raises \<Rightarrow>
                  Inl (LibraryError fv, s3\<lparr> trace := trace s3 @ [ECall fv avs kvs None] \<rparr>)
              | ReturnsNone \<Rightarrow>
                  Inr (VNone, s3\<lparr> trace := trace s3 @ [ECall fv avs kvs (Some VNone)] \<rparr>)
              | ReturnsObject \<Rightarrow>
                  Inr (VObj (next_obj s3),
                       s3\<lparr> next_obj := Suc (next_obj s3),
                           trace := trace s3 @
                             [ECall fv avs kvs (Some (VObj (next_obj s3)))] \<rparr>)))))"
| "eval_list w [] s = Inr ([], s)"
| "eval_list w (e # es) s =
     (case eval w e s of Inl err \<Rightarrow> Inl err | Inr (v, s1) \<Rightarrow>
     (case eval_list w es s1 of Inl err \<Rightarrow> Inl err | Inr (vs, s2) \<Rightarrow> Inr (v # vs, s2)))"
| "eval_kws w [] s = Inr ([], s)"
| "eval_kws w ((k, e) # kws) s =
     (case eval w e s of Inl err \<Rightarrow> Inl err | Inr (v, s1) \<Rightarrow>
     (case eval_kws w kws s1 of Inl err \<Rightarrow> Inl err
      | Inr (kvs, s2) \<Rightarrow> Inr ((k, v) # kvs, s2)))"

text \<open>A statement returns the value of an expression statement, if it is one. An import
  that the environment cannot satisfy raises.\<close>

fun exec_stmt :: "world \<Rightarrow> stmt \<Rightarrow> state \<Rightarrow> (error \<times> state) + (val option \<times> state)" where
  "exec_stmt w (ImportFrom m n a) s =
     (if importable w m n
      then Inr (None, s\<lparr> env := (bound_name n a, VImported m n) # env s,
                         trace := trace s @ [EImport m n (bound_name n a)] \<rparr>)
      else Inl (ImportError m n, s))"
| "exec_stmt w (Assign x e) s =
     (case eval w e s of Inl err \<Rightarrow> Inl err
      | Inr (v, s1) \<Rightarrow> Inr (None, s1\<lparr> env := (x, v) # env s1 \<rparr>))"
| "exec_stmt w (Expr e) s =
     (case eval w e s of Inl err \<Rightarrow> Inl err | Inr (v, s1) \<Rightarrow> Inr (Some v, s1))"

text \<open>Decimal numerals, for the names \<^verbatim>\<open>_N\<close> and \<^verbatim>\<open>_iN\<close>.\<close>

function string_of_nat :: "nat \<Rightarrow> string" where
  "string_of_nat n =
     (if n < 10 then [''0123456789'' ! n]
      else string_of_nat (n div 10) @ [''0123456789'' ! (n mod 10)])"
  by pat_completeness auto
termination
  by (relation "measure id") auto

declare string_of_nat.simps [simp del]

definition bound_or_empty :: "(string \<times> val) list \<Rightarrow> string \<Rightarrow> val" where
  "bound_or_empty e n = (case map_of e n of None \<Rightarrow> VStr [] | Some v \<Rightarrow> v)"

fun input_or_empty :: "(nat \<times> line list) list \<Rightarrow> val" where
  "input_or_empty [] = VStr []"
| "input_or_empty (h # hs) = VSource (snd h)"

text \<open>The kernel's record of a cell's input, made before the cell runs.\<close>

definition store_inputs :: "line list \<Rightarrow> state \<Rightarrow> state" where
  "store_inputs src s =
     s\<lparr> env := (''_i'' @ string_of_nat (exec_count s), VSource src)
                # (''_i'', input_or_empty (in_hist s))
                # (''_ii'', input_or_empty (drop 1 (in_hist s)))
                # (''_iii'', input_or_empty (drop 2 (in_hist s)))
                # env s,
        in_hist := (exec_count s, src) # in_hist s \<rparr>"

text \<open>The display hook.\<close>

fun display :: "val option \<Rightarrow> state \<Rightarrow> state" where
  "display None s = s"
| "display (Some v) s =
     (if v = VNone then s
      else s\<lparr> env := (''_'' @ string_of_nat (exec_count s), v)
                     # (''_'', v)
                     # (''__'', bound_or_empty (env s) ''_'')
                     # (''___'', bound_or_empty (env s) ''__'')
                     # env s,
              out_hist := (exec_count s, v) # out_hist s,
              trace := trace s @ [EDisplay v] \<rparr>)"

fun exec_stmts :: "world \<Rightarrow> stmt list \<Rightarrow> state \<Rightarrow> (error \<times> state) + state" where
  "exec_stmts w [] s = Inr s"
| "exec_stmts w [st] s =
     (case exec_stmt w st s of Inl err \<Rightarrow> Inl err | Inr (r, s1) \<Rightarrow> Inr (display r s1))"
| "exec_stmts w (st # st2 # sts) s =
     (case exec_stmt w st s of Inl err \<Rightarrow> Inl err
      | Inr (r, s1) \<Rightarrow> exec_stmts w (st2 # sts) s1)"

definition counted :: "state \<Rightarrow> state" where
  "counted s = s\<lparr> exec_count := Suc (exec_count s) \<rparr>"

fun exec_cell :: "world \<Rightarrow> cell \<Rightarrow> state \<Rightarrow> (error \<times> state) + state" where
  "exec_cell w (Markdown t n) s = Inr s"
| "exec_cell w (CodeCell ec outs ls) s =
     (if list_all (\<lambda>l. l = Blank) ls then Inr s
      else (case exec_stmts w (concat (map line_stmts ls)) (store_inputs ls s) of
              Inl (err, s1) \<Rightarrow> Inl (err, counted s1)
            | Inr s1 \<Rightarrow> Inr (counted s1)))"

fun exec_cells :: "world \<Rightarrow> cell list \<Rightarrow> state \<Rightarrow> (error \<times> state) + state" where
  "exec_cells w [] s = Inr s"
| "exec_cells w (c # cs) s =
     (case exec_cell w c s of Inl err \<Rightarrow> Inl err | Inr s1 \<Rightarrow> exec_cells w cs s1)"

text \<open>The events a run adds to the trace it started with: of a run that completes
  (\<open>run_events\<close>), and of any run up to where it stopped (\<open>run_trace\<close>).\<close>

definition new_events :: "state \<Rightarrow> state \<Rightarrow> event list" where
  "new_events s s1 = drop (length (trace s)) (trace s1)"

definition run_events :: "world \<Rightarrow> cell list \<Rightarrow> state \<Rightarrow> error + event list" where
  "run_events w cs s = map_sum fst (new_events s) (exec_cells w cs s)"

definition run_trace :: "world \<Rightarrow> cell list \<Rightarrow> state \<Rightarrow> event list" where
  "run_trace w cs s =
     (case exec_cells w cs s of Inl (err, s1) \<Rightarrow> new_events s s1 | Inr s1 \<Rightarrow> new_events s s1)"

definition run_env :: "world \<Rightarrow> cell list \<Rightarrow> state \<Rightarrow> error + (string \<times> val) list" where
  "run_env w cs s = map_sum fst env (exec_cells w cs s)"


section \<open>Reading a trace\<close>

text \<open>The client is constructed by calling the object imported as
  \<^verbatim>\<open>Client\<close> from \<^verbatim>\<open>dask.distributed\<close>, and closed by calling the attribute
  \<^verbatim>\<open>close\<close> of a value.\<close>

fun is_construction_event :: "event \<Rightarrow> bool" where
  "is_construction_event (ECall f as kws r) = (f = VImported ''dask.distributed'' ''Client'')"
| "is_construction_event (EImport m n x) = False"
| "is_construction_event (EDisplay v) = False"

fun is_close_event :: "event \<Rightarrow> bool" where
  "is_close_event (ECall (VAttr v a) as kws r) = (a = ''close'')"
| "is_close_event e = False"

text \<open>The arguments every call of the constructor receives, whatever its outcome.\<close>

fun construction_args :: "event \<Rightarrow> (val list \<times> (string \<times> val) list) list" where
  "construction_args (ECall f as kws r) =
     (if f = VImported ''dask.distributed'' ''Client'' then [(as, kws)] else [])"
| "construction_args (EImport m n x) = []"
| "construction_args (EDisplay v) = []"

definition client_args :: "error + event list \<Rightarrow> error + (val list \<times> (string \<times> val) list) list" where
  "client_args r = map_sum id (\<lambda>tr. concat (map construction_args tr)) r"

text \<open>The objects that calls of the constructor returned.\<close>

fun constructed_by :: "event \<Rightarrow> nat list" where
  "constructed_by (ECall f as kws (Some (VObj r))) =
     (if f = VImported ''dask.distributed'' ''Client'' then [r] else [])"
| "constructed_by e = []"

definition constructed :: "event list \<Rightarrow> nat list" where
  "constructed tr = concat (map constructed_by tr)"

definition events_between :: "event list \<Rightarrow> event list" where
  "events_between tr =
     takeWhile (\<lambda>e. \<not> is_close_event e) (tl (dropWhile (\<lambda>e. \<not> is_construction_event e) tr))"

text \<open>Whether a value is, or is an attribute of, the object \<open>r\<close>; whether an event
  operates on it; whether an event calls its \<^verbatim>\<open>close\<close>.\<close>

fun mentions :: "nat \<Rightarrow> val \<Rightarrow> bool" where
  "mentions r (VObj k) = (k = r)"
| "mentions r (VAttr v a) = mentions r v"
| "mentions r (VInt i) = False"
| "mentions r (VStr s) = False"
| "mentions r VNone = False"
| "mentions r (VSource ls) = False"
| "mentions r (VImported m n) = False"

fun touches :: "nat \<Rightarrow> event \<Rightarrow> bool" where
  "touches r (ECall f as kws res) =
     (mentions r f \<or> list_ex (mentions r) as \<or> list_ex (mentions r) (map snd kws))"
| "touches r (EDisplay v) = mentions r v"
| "touches r (EImport m n x) = False"

fun closes :: "nat \<Rightarrow> event \<Rightarrow> bool" where
  "closes r (ECall f as kws res) = (f = VAttr (VObj r) ''close'')"
| "closes r (EDisplay v) = False"
| "closes r (EImport m n x) = False"

text \<open>For the object \<open>r\<close>: how often the trace calls its \<^verbatim>\<open>close\<close>, and the events
  that still operate on it after the first such call.\<close>

definition lifecycle :: "event list \<Rightarrow> nat \<Rightarrow> nat \<times> event list" where
  "lifecycle tr r =
     (length (filter (closes r) tr),
      filter (touches r) (tl (dropWhile (\<lambda>e. \<not> closes r e) tr)))"


section \<open>Removing imports\<close>









text \<open>The four names the statements bind, looked up in a namespace.\<close>

definition program_names :: "(string \<times> val) list \<Rightarrow> val option list" where
  "program_names e = map (map_of e) [''ddf'', ''da'', ''Client'', ''client'']"

text \<open>An environment in which the notebook runs to its end from \<open>s\<close>: the three imports
  succeed, the constructor returns an object, and the call of its \<^verbatim>\<open>close\<close> does not
  raise.\<close>

definition client_kwargs :: "(string \<times> val) list" where
  "client_kwargs =
     [(''n_workers'', VInt 2), (''threads_per_worker'', VInt 1), (''memory_limit'', VStr ''1GB'')]"

definition imports_succeed :: "world \<Rightarrow> bool" where
  "imports_succeed w =
     (importable w ''dask'' ''dataframe'' \<and> importable w ''dask'' ''array''
      \<and> importable w ''dask.distributed'' ''Client'')"

definition supports :: "world \<Rightarrow> state \<Rightarrow> bool" where
  "supports w s =
     (imports_succeed w
      \<and> call_outcome w (VImported ''dask.distributed'' ''Client'') [] client_kwargs = ReturnsObject
      \<and> call_outcome w (VAttr (VObj (next_obj s)) ''close'') [] [] \<noteq> Raises)"


section \<open>Facts about the kernel's bookkeeping\<close>

lemmas cells_defs = notebook_def cell4_def cell5_def cell6_def cell7_def cell9_def

text \<open>The kernel's bookkeeping changes neither the trace, nor the objects, nor the
  binding of any name that does not start with an underscore.\<close>

lemma store_inputs_fields:
  "next_obj (store_inputs src s) = next_obj s"
  "trace (store_inputs src s) = trace s"
  "exec_count (store_inputs src s) = exec_count s"
  "out_hist (store_inputs src s) = out_hist s"
  by (simp_all add: store_inputs_def)

lemma store_inputs_lookup:
  "c \<noteq> CHR ''_'' \<Longrightarrow> map_of (env (store_inputs src s)) (c # cs) = map_of (env s) (c # cs)"
  by (simp add: store_inputs_def)



lemma counted_fields:
  "env (counted s) = env s"
  "next_obj (counted s) = next_obj s"
  "trace (counted s) = trace s"
  "exec_count (counted s) = Suc (exec_count s)"
  "out_hist (counted s) = out_hist s"
  by (simp_all add: counted_def)

lemma display_fields:
  "next_obj (display r s) = next_obj s"
  "exec_count (display r s) = exec_count s"
  "trace (display None s) = trace s"
  "trace (display (Some v) s) = (if v = VNone then trace s else trace s @ [EDisplay v])"
  by (cases r; simp)+

lemma display_lookup:
  "c \<noteq> CHR ''_'' \<Longrightarrow> map_of (env (display r s)) (c # cs) = map_of (env s) (c # cs)"
  by (cases r) simp_all

lemmas kernel_simps = store_inputs_fields store_inputs_lookup counted_fields display_fields
  display_lookup







lemma display_out_hist:
  "out_hist (display None s) = out_hist s"
  "out_hist (display (Some v) s) =
     (if v = VNone then out_hist s else (exec_count s, v) # out_hist s)"
  by simp_all





section \<open>What a run of the notebook does\<close>

text \<open>The events of a run, in every environment and from every starting state: it
  stops at the first import the environment cannot satisfy; otherwise it calls the
  constructor, and if that returns an object, displays it and calls its
  \<^verbatim>\<open>close\<close>.\<close>

lemma run_trace_notebook:
  "run_trace w notebook s =
     (if \<not> importable w ''dask'' ''dataframe'' then []
      else if \<not> importable w ''dask'' ''array'' then [EImport ''dask'' ''dataframe'' ''ddf'']
      else if \<not> importable w ''dask.distributed'' ''Client''
        then [EImport ''dask'' ''dataframe'' ''ddf'', EImport ''dask'' ''array'' ''da'']
      else [EImport ''dask'' ''dataframe'' ''ddf'', EImport ''dask'' ''array'' ''da'',
            EImport ''dask.distributed'' ''Client'' ''Client''] @
        (case call_outcome w (VImported ''dask.distributed'' ''Client'') [] client_kwargs of
           Raises \<Rightarrow> [ECall (VImported ''dask.distributed'' ''Client'') [] client_kwargs None]
         | ReturnsNone \<Rightarrow>
             [ECall (VImported ''dask.distributed'' ''Client'') [] client_kwargs (Some VNone)]
         | ReturnsObject \<Rightarrow>
             [ECall (VImported ''dask.distributed'' ''Client'') [] client_kwargs
                (Some (VObj (next_obj s))),
              EDisplay (VObj (next_obj s))] @
             (case call_outcome w (VAttr (VObj (next_obj s)) ''close'') [] [] of
                Raises \<Rightarrow> [ECall (VAttr (VObj (next_obj s)) ''close'') [] [] None]
              | ReturnsNone \<Rightarrow> [ECall (VAttr (VObj (next_obj s)) ''close'') [] [] (Some VNone)]
              | ReturnsObject \<Rightarrow>
                  [ECall (VAttr (VObj (next_obj s)) ''close'') [] []
                     (Some (VObj (Suc (next_obj s)))),
                   EDisplay (VObj (Suc (next_obj s)))])))"
  by (simp add: run_trace_def new_events_def client_kwargs_def cells_defs kernel_simps
        del: display.simps split: outcome.splits)

text \<open>Where the libraries are installed the run completes, with six events.\<close>

lemma run_events_installed:
  "run_events installed notebook s =
     Inr [ EImport ''dask'' ''dataframe'' ''ddf'',
           EImport ''dask'' ''array'' ''da'',
           EImport ''dask.distributed'' ''Client'' ''Client'',
           ECall (VImported ''dask.distributed'' ''Client'') []
             [(''n_workers'', VInt 2), (''threads_per_worker'', VInt 1),
              (''memory_limit'', VStr ''1GB'')] (Some (VObj (next_obj s))),
           EDisplay (VObj (next_obj s)),
           ECall (VAttr (VObj (next_obj s)) ''close'') [] [] (Some VNone) ]"
  by (simp add: run_events_def new_events_def installed_def cells_defs kernel_simps
        del: display.simps)



text \<open>The model reproduces what the file stores of its run: started with the count 2
  where the libraries are installed, the four cells with source get the counts 2 to 5,
  and the only result stored is the client, under the count 3.\<close>

lemma in_hist_fields:
  "in_hist (store_inputs src s) = (exec_count s, src) # in_hist s"
  "in_hist (counted s) = in_hist s"
  "in_hist (display r s) = in_hist s"
proof -
  show "in_hist (store_inputs src s) = (exec_count s, src) # in_hist s"
    by (simp add: store_inputs_def)
  show "in_hist (counted s) = in_hist s"
    by (simp add: counted_def)
  show "in_hist (display r s) = in_hist s"
    by (cases r) simp_all
qed

lemma stored_run:
  "concat (map stored_count notebook) = [Some 2, Some 3, Some 4, Some 5, None]"
  "concat (map stored_results notebook) = [3]"
  by (simp_all add: cells_defs)

lemma run_reproduces_stored_counts:
  "exec_count s = 2 \<Longrightarrow>
   map_sum fst (\<lambda>t. (map fst (in_hist t), out_hist t, exec_count t))
     (exec_cells installed notebook s)
   = Inr ([5, 4, 3, 2] @ map fst (in_hist s), (3, VObj (next_obj s)) # out_hist s, 6)"
  by (simp add: installed_def cells_defs kernel_simps in_hist_fields display_out_hist
        del: display.simps)

lemma client_bound_installed:
  "map_sum id (\<lambda>e. map_of e ''client'') (run_env installed notebook s)
   = Inr (Some (VObj (next_obj s)))"
  by (simp add: run_env_def installed_def cells_defs kernel_simps del: display.simps)

lemma statements_notebook:
  "statements notebook =
     [ ImportFrom ''dask'' ''dataframe'' (Some ''ddf''),
       ImportFrom ''dask'' ''array'' (Some ''da''),
       ImportFrom ''dask.distributed'' ''Client'' None,
       Assign ''client''
         (Call (Name ''Client'') []
            [(''n_workers'', Num 2), (''threads_per_worker'', Num 1),
             (''memory_limit'', Str ''1GB'')]),
       Expr (Name ''client''),
       Expr (Call (Attribute (Name ''client'') ''close'') [] []) ]"
  by (simp add: statements_def cells_defs)

lemma intervening_notebook: "intervening notebook = [cell5, cell6]"
  by (simp add: intervening_def constructs_client_def closes_client_def cells_defs)


section \<open>The client's configuration\<close>

text \<open>
  C2. The source constructs the compute client exactly once, passing no positional
  argument and the three literal keyword arguments \<^verbatim>\<open>n_workers=2\<close>,
  \<^verbatim>\<open>threads_per_worker=1\<close>, \<^verbatim>\<open>memory_limit='1GB'\<close>. The name \<^verbatim>\<open>Client\<close>
  called there is the object imported from \<^verbatim>\<open>dask.distributed\<close>: in every
  environment and from every starting state, a run calls that constructor with exactly
  these arguments, once if the three imports succeed and not at all otherwise. Where the
  libraries are installed the call returns the object that \<^verbatim>\<open>client\<close> is bound to
  at the end of the run.
\<close>

theorem client_constructed_with_fixed_arguments:
  "client_constructions notebook =
     [ Call (Name ''Client'') []
         [(''n_workers'', Num 2), (''threads_per_worker'', Num 1),
          (''memory_limit'', Str ''1GB'')] ]
   \<and> concat (map construction_args (run_trace w notebook s)) =
       (if imports_succeed w
        then [([], [(''n_workers'', VInt 2), (''threads_per_worker'', VInt 1),
                    (''memory_limit'', VStr ''1GB'')])]
        else [])
   \<and> map_sum id (filter is_construction_event) (run_events installed notebook s) =
       Inr [ ECall (VImported ''dask.distributed'' ''Client'') []
               [(''n_workers'', VInt 2), (''threads_per_worker'', VInt 1),
                (''memory_limit'', VStr ''1GB'')] (Some (VObj (next_obj s))) ]
   \<and> map_sum id (\<lambda>e. map_of e ''client'') (run_env installed notebook s) =
       Inr (Some (VObj (next_obj s)))"
proof -
  have static: "client_constructions notebook =
     [ Call (Name ''Client'') []
         [(''n_workers'', Num 2), (''threads_per_worker'', Num 1),
          (''memory_limit'', Str ''1GB'')] ]"
    by (simp add: client_constructions_def calls_def statements_notebook)
  have every_run: "concat (map construction_args (run_trace w notebook s)) =
       (if imports_succeed w
        then [([], [(''n_workers'', VInt 2), (''threads_per_worker'', VInt 1),
                    (''memory_limit'', VStr ''1GB'')])]
        else [])"
    by (simp add: run_trace_notebook imports_succeed_def client_kwargs_def split: outcome.splits)
  have this_run: "map_sum id (filter is_construction_event) (run_events installed notebook s) =
       Inr [ ECall (VImported ''dask.distributed'' ''Client'') []
               [(''n_workers'', VInt 2), (''threads_per_worker'', VInt 1),
                (''memory_limit'', VStr ''1GB'')] (Some (VObj (next_obj s))) ]"
    by (simp add: run_events_installed)
  from static every_run this_run client_bound_installed show ?thesis by blast
qed

text \<open>
  C10. The run takes nothing from outside: started from any two states \<open>s1\<close> and
  \<open>s2\<close> (whatever names were bound before) where the libraries are installed, the
  client constructor receives the same arguments, namely no positional argument and
  \<open>n_workers = 2\<close>, \<open>threads_per_worker = 1\<close>, \<open>memory_limit = '1GB'\<close>. The
  statements read no name they have not bound themselves, and every argument of the
  construction is a literal.
\<close>

theorem client_arguments_same_in_every_run:
  "client_args (run_events installed notebook s1) = client_args (run_events installed notebook s2)
   \<and> client_args (run_events installed notebook s1) =
       Inr [([], [(''n_workers'', VInt 2), (''threads_per_worker'', VInt 1),
                  (''memory_limit'', VStr ''1GB'')])]
   \<and> free_names [] (statements notebook) = []
   \<and> list_all is_literal (concat (map call_arguments (client_constructions notebook)))"
  by (simp add: client_args_def run_events_installed statements_notebook
        client_constructions_def calls_def)


section \<open>The executable statements\<close>

text \<open>
  C1, as stated, fails. If the construction of the client and its shutdown were the only
  executable statements, every statement of the notebook would be one of the two. The
  three imports and the bare expression \<^verbatim>\<open>client\<close> are neither.
\<close>

theorem only_setup_and_teardown_counterexample:
  "\<not> list_all is_setup_or_teardown (statements notebook)"
  by (simp add: statements_notebook)

text \<open>
  C1, amended. The notebook has exactly six executable statements, in this order: three
  imports (\<^verbatim>\<open>dataframe as ddf\<close> and \<^verbatim>\<open>array as da\<close> from \<^verbatim>\<open>dask\<close>,
  \<^verbatim>\<open>Client\<close> from \<^verbatim>\<open>dask.distributed\<close>), the assignment that constructs the
  client, the bare expression \<^verbatim>\<open>client\<close>, and the call \<^verbatim>\<open>client.close()\<close>.
  The only calls are the construction and the shutdown.
\<close>

theorem executable_statements:
  "statements notebook =
     [ ImportFrom ''dask'' ''dataframe'' (Some ''ddf''),
       ImportFrom ''dask'' ''array'' (Some ''da''),
       ImportFrom ''dask.distributed'' ''Client'' None,
       Assign ''client''
         (Call (Name ''Client'') []
            [(''n_workers'', Num 2), (''threads_per_worker'', Num 1),
             (''memory_limit'', Str ''1GB'')]),
       Expr (Name ''client''),
       Expr (Call (Attribute (Name ''client'') ''close'') [] []) ]
   \<and> calls notebook =
     [ Call (Name ''Client'') []
         [(''n_workers'', Num 2), (''threads_per_worker'', Num 1),
          (''memory_limit'', Str ''1GB'')],
       Call (Attribute (Name ''client'') ''close'') [] [] ]
   \<and> map is_setup_or_teardown (statements notebook) =
     [False, False, False, True, False, True]"
  by (simp add: calls_def statements_notebook)

text \<open>
  C5, as stated, fails: the number of source lines that carry a statement is not zero.
\<close>

theorem zero_implementation_lines_counterexample:
  "implementation_lines notebook \<noteq> 0"
  by (simp add: implementation_lines_def cells_defs)

text \<open>
  C5, amended. The source has six lines of executable code: four in the first code cell
  (three imports and the construction of the client), one in the second (the bare
  expression \<^verbatim>\<open>client\<close>), one in the fourth (\<^verbatim>\<open>client.close()\<close>); the
  third and the fifth code cell have none.
\<close>

theorem implementation_line_count:
  "implementation_lines notebook = 6
   \<and> map impl_lines (code_cells notebook) = [4, 1, 0, 1, 0]
   \<and> map cell_stmts (code_cells notebook) =
     [ [ ImportFrom ''dask'' ''dataframe'' (Some ''ddf''),
         ImportFrom ''dask'' ''array'' (Some ''da''),
         ImportFrom ''dask.distributed'' ''Client'' None,
         Assign ''client''
           (Call (Name ''Client'') []
              [(''n_workers'', Num 2), (''threads_per_worker'', Num 1),
               (''memory_limit'', Str ''1GB'')]) ],
       [ Expr (Name ''client'') ],
       [],
       [ Expr (Call (Attribute (Name ''client'') ''close'') [] []) ],
       [] ]"
  by (simp add: implementation_lines_def code_cells_def cells_defs)


section \<open>Between construction and close\<close>

text \<open>
  C3, as stated, fails: the cells strictly between the constructing cell and the closing
  cell are not one cell without statements.
\<close>

theorem single_empty_intervening_cell_counterexample:
  "\<not> (length (intervening notebook) = 1 \<and> statements (intervening notebook) = [])"
  by (simp add: intervening_notebook)

text \<open>
  C3, amended. Two code cells lie between the construction and the close. The first
  evaluates the bare name \<^verbatim>\<open>client\<close>, the second holds only a comment. No call
  is made in the interval: in every run where the libraries are installed the only event
  between the construction and the close is the client being displayed.
\<close>

theorem no_call_between_construction_and_close:
  "intervening notebook = [cell5, cell6]
   \<and> cell_stmts cell5 = [Expr (Name ''client'')]
   \<and> cell_stmts cell6 = []
   \<and> calls (intervening notebook) = []
   \<and> map_sum id events_between (run_events installed notebook s)
       = Inr [EDisplay (VObj (next_obj s))]"
  by (simp add: intervening_notebook run_events_installed events_between_def calls_def
        statements_def cell5_def cell6_def)

text \<open>
  C8. In every environment and from every starting state, each client a run constructs
  has its \<^verbatim>\<open>close\<close> called exactly once, and no later event operates on it; a
  client is constructed when the three imports succeed and the constructor returns an
  object, and not otherwise. Where the libraries are installed, the call of
  \<^verbatim>\<open>close\<close> is the last event of the run. In the source no statement at all follows
  the statement that calls \<^verbatim>\<open>close\<close>, whether in the same cell or in a later one,
  so no statement after it references the client.
\<close>

theorem client_closed_once_and_last:
  "map (lifecycle (run_trace w notebook s)) (constructed (run_trace w notebook s)) =
     (if imports_succeed w
         \<and> call_outcome w (VImported ''dask.distributed'' ''Client'') [] client_kwargs
             = ReturnsObject
      then [(1, [])] else [])
   \<and> map_sum id (\<lambda>tr. map (lifecycle tr) (constructed tr)) (run_events installed notebook s)
       = Inr [(1, [])]
   \<and> map_sum id last (run_events installed notebook s)
       = Inr (ECall (VAttr (VObj (next_obj s)) ''close'') [] [] (Some VNone))
   \<and> stmts_after_close (statements notebook) = []
   \<and> concat (map stmt_reads (stmts_after_close (statements notebook))) = []"
proof -
  have every_run:
    "map (lifecycle (run_trace w notebook s)) (constructed (run_trace w notebook s)) =
     (if imports_succeed w
         \<and> call_outcome w (VImported ''dask.distributed'' ''Client'') [] client_kwargs
             = ReturnsObject
      then [(1, [])] else [])"
    by (simp add: run_trace_notebook imports_succeed_def constructed_def lifecycle_def
          client_kwargs_def split: outcome.splits)
  have this_run:
    "map_sum id (\<lambda>tr. map (lifecycle tr) (constructed tr)) (run_events installed notebook s)
       = Inr [(1, [])]"
    by (simp add: run_events_installed constructed_def lifecycle_def)
  have last_event: "map_sum id last (run_events installed notebook s)
       = Inr (ECall (VAttr (VObj (next_obj s)) ''close'') [] [] (Some VNone))"
    by (simp add: run_events_installed)
  have nothing_follows: "stmts_after_close (statements notebook) = []"
    by (simp add: stmts_after_close_def statements_notebook)
  from every_run this_run last_event nothing_follows show ?thesis by simp
qed


section \<open>What a run leaves behind\<close>

text \<open>
  C6, as stated, fails: started in an empty namespace where the libraries are installed,
  the run does not end with an empty namespace.
\<close>

theorem no_binding_counterexample:
  "run_env installed notebook init \<noteq> Inr []"
proof
  assume "run_env installed notebook init = Inr []"
  then have "map_sum id (\<lambda>e. map_of e ''client'') (run_env installed notebook init) = Inr None"
    by simp
  with client_bound_installed [of init] show False by simp
qed

text \<open>
  C6, amended. Executing the notebook does create named in-memory bindings and leaves
  them behind. Its statements bind the four names \<^verbatim>\<open>ddf\<close>, \<^verbatim>\<open>da\<close>,
  \<^verbatim>\<open>Client\<close> and \<^verbatim>\<open>client\<close>. In every environment in which the run reaches its
  end (the imports succeed, the constructor returns an object, \<^verbatim>\<open>close\<close> does not
  raise), from every starting state, all four are bound when it ends: \<^verbatim>\<open>ddf\<close>,
  \<^verbatim>\<open>da\<close> and \<^verbatim>\<open>Client\<close> to the imported library objects, \<^verbatim>\<open>client\<close> to the
  one client the run constructed.
\<close>

theorem bindings_left_by_run:
  assumes "supports w s"
  shows "map_sum id program_names (run_env w notebook s) =
           Inr [ Some (VImported ''dask'' ''dataframe''), Some (VImported ''dask'' ''array''),
                 Some (VImported ''dask.distributed'' ''Client''), Some (VObj (next_obj s)) ]
         \<and> concat (map stmt_binds (statements notebook)) =
             [''ddf'', ''da'', ''Client'', ''client'']
         \<and> constructed (run_trace w notebook s) = [next_obj s]"
proof -
  have left: "map_sum id program_names (run_env w notebook s) =
           Inr [ Some (VImported ''dask'' ''dataframe''), Some (VImported ''dask'' ''array''),
                 Some (VImported ''dask.distributed'' ''Client''), Some (VObj (next_obj s)) ]"
    using assms
    by (simp add: supports_def imports_succeed_def run_env_def program_names_def
          client_kwargs_def cells_defs kernel_simps del: display.simps split: outcome.splits)
  have bound: "concat (map stmt_binds (statements notebook)) =
             [''ddf'', ''da'', ''Client'', ''client'']"
    by (simp add: statements_notebook)
  have one: "constructed (run_trace w notebook s) = [next_obj s]"
    using assms
    by (simp add: supports_def imports_succeed_def run_trace_notebook constructed_def
          client_kwargs_def split: outcome.splits)
  from left bound one show ?thesis by simp
qed

theorem bindings_left_by_run_witness:
  "supports installed init
   \<and> map_sum id program_names (run_env installed notebook init) =
       Inr [ Some (VImported ''dask'' ''dataframe''), Some (VImported ''dask'' ''array''),
             Some (VImported ''dask.distributed'' ''Client''), Some (VObj 0) ]
   \<and> constructed (run_trace installed notebook init) = [0]"
proof -
  have ok: "supports installed init"
    by (simp add: supports_def imports_succeed_def installed_def)
  from bindings_left_by_run [OF ok] ok show ?thesis by (simp add: init_def)
qed


section \<open>The unused imports\<close>




end
